theory Spec2Isabelle
  imports Main "HOL-Library.Sublist" "HOL-Library.List_Lexorder"
begin

section \<open>Python strings\<close>

text \<open>
  The script \<^verbatim>\<open>PyUpdateTrackTools.py\<close> works on Python \<^verbatim>\<open>str\<close> values, which are
  sequences of Unicode code points. The model's characters are the code points U+0000 to
  U+00FF (\<open>Latin\<close>) and the three code points beyond them that \<^verbatim>\<open>str.title\<close> and
  \<^verbatim>\<open>str.lower\<close> reach from there: U+0178 (capital Y with diaeresis), U+039C (Greek capital
  mu, the capital of the micro sign U+00B5) and U+03BC (Greek small mu). On this alphabet
  the classes and case mappings below are those of Python 3. File names, descriptions and
  file contents are all strings over it; the script classifies the characters of file
  names and tool names only, and copies and searches the rest.
\<close>

datatype uchar = Latin char | U0178 | U039C | U03BC

type_synonym str = "uchar list"

text \<open>A string literal of the source.\<close>

definition lit :: "string \<Rightarrow> str" where
  "lit s = map Latin s"

lemma lit_simps [simp]:
  "lit [] = []"
  "lit (c # s) = Latin c # lit s"
  "lit (s @ t) = lit s @ lit t"
  "length (lit s) = length s"
  by (simp_all add: lit_def)

text \<open>\<^verbatim>\<open>ord(c)\<close>\<close>

fun code_point :: "uchar \<Rightarrow> nat" where
  "code_point (Latin x) = of_char x"
| "code_point U0178 = 0x178"
| "code_point U039C = 0x39C"
| "code_point U03BC = 0x3BC"

text \<open>
  \<^verbatim>\<open>str.isupper\<close> of a character: A to Z, U+00C0 to U+00DE without the multiplication
  sign U+00D7, U+0178 and U+039C.
\<close>

definition is_upper :: "uchar \<Rightarrow> bool" where
  "is_upper c =
     (let n = code_point c
      in (0x41 \<le> n \<and> n \<le> 0x5A) \<or> (0xC0 \<le> n \<and> n \<le> 0xDE \<and> n \<noteq> 0xD7)
         \<or> n = 0x178 \<or> n = 0x39C)"

text \<open>
  \<^verbatim>\<open>str.islower\<close> of a character: a to z, the ordinal indicators U+00AA and U+00BA, the
  micro sign U+00B5, U+00DF to U+00FF without the division sign U+00F7, and U+03BC.
\<close>

definition is_lower :: "uchar \<Rightarrow> bool" where
  "is_lower c =
     (let n = code_point c
      in (0x61 \<le> n \<and> n \<le> 0x7A) \<or> n = 0xAA \<or> n = 0xB5 \<or> n = 0xBA
         \<or> (0xDF \<le> n \<and> n \<le> 0xFF \<and> n \<noteq> 0xF7) \<or> n = 0x3BC)"

text \<open>A cased character, as \<^verbatim>\<open>str.title\<close> reads it: uppercase or lowercase (the
  alphabet has no titlecase letter).\<close>

definition is_cased :: "uchar \<Rightarrow> bool" where
  "is_cased c = (is_upper c \<or> is_lower c)"

text \<open>The decimal digits, which \<^verbatim>\<open>\d\<close> matches and of which \<^verbatim>\<open>str.isdecimal\<close> holds: 0 to
  9.\<close>

definition is_digit :: "uchar \<Rightarrow> bool" where
  "is_digit c = (let n = code_point c in 0x30 \<le> n \<and> n \<le> 0x39)"

text \<open>
  \<^verbatim>\<open>str.isspace\<close> of a character, which is what \<^verbatim>\<open>str.strip\<close> removes: U+0009 to U+000D,
  U+001C to U+0020, U+0085 and U+00A0.
\<close>

definition is_space :: "uchar \<Rightarrow> bool" where
  "is_space c =
     (let n = code_point c
      in (0x09 \<le> n \<and> n \<le> 0x0D) \<or> (0x1C \<le> n \<and> n \<le> 0x20) \<or> n = 0x85 \<or> n = 0xA0)"

text \<open>
  The lowercase of a character: an uppercase character below U+0100 is 32 code points
  under its lowercase, U+0178 is the capital of U+00FF and U+039C that of U+03BC; any other
  character is its own lowercase.
\<close>

fun chr_lower :: "uchar \<Rightarrow> uchar" where
  "chr_lower (Latin x) =
     (if is_upper (Latin x) then Latin (char_of (of_char x + (32::nat))) else Latin x)"
| "chr_lower U0178 = Latin (CHR 0xFF)"
| "chr_lower U039C = U03BC"
| "chr_lower U03BC = U03BC"

text \<open>
  The titlecase of a character, which can be two characters: that of the sharp s U+00DF
  is \<^verbatim>\<open>Ss\<close>. The micro sign U+00B5 goes to U+039C and U+00FF to U+0178; the other
  lowercase characters below U+0100 go 32 code points down, but for the ordinal
  indicators U+00AA and U+00BA, which are lowercase and have no capital.
\<close>

fun chr_title :: "uchar \<Rightarrow> str" where
  "chr_title (Latin x) =
     (let n = of_char x :: nat
      in if n = 0xDF then [Latin CHR ''S'', Latin CHR ''s'']
         else if n = 0xB5 then [U039C]
         else if n = 0xFF then [U0178]
         else if n = 0xAA \<or> n = 0xBA then [Latin x]
         else if is_lower (Latin x) then [Latin (char_of (n - 32))]
         else [Latin x])"
| "chr_title U03BC = [U039C]"
| "chr_title U0178 = [U0178]"
| "chr_title U039C = [U039C]"

text \<open>\<^verbatim>\<open>s.lower()\<close>\<close>

definition str_lower :: "str \<Rightarrow> str" where
  "str_lower s = map chr_lower s"

text \<open>
  \<^verbatim>\<open>s.title()\<close>: a character that follows a cased character is lowercased, any other
  character is titlecased; the flag is the casedness of the previous source character.
\<close>

fun title_from :: "bool \<Rightarrow> str \<Rightarrow> str" where
  "title_from prev [] = []"
| "title_from prev (c # cs) =
     (if prev then [chr_lower c] else chr_title c) @ title_from (is_cased c) cs"

definition str_title :: "str \<Rightarrow> str" where
  "str_title s = title_from False s"

text \<open>\<^verbatim>\<open>s.strip()\<close>\<close>

definition str_strip :: "str \<Rightarrow> str" where
  "str_strip s = rev (dropWhile is_space (rev (dropWhile is_space s)))"

text \<open>\<^verbatim>\<open>s.replace(a, b)\<close> for single characters \<open>a\<close> and \<open>b\<close>.\<close>

definition str_replace :: "uchar \<Rightarrow> uchar \<Rightarrow> str \<Rightarrow> str" where
  "str_replace a b s = map (\<lambda>c. if c = a then b else c) s"

text \<open>\<^verbatim>\<open>s.split(sep)\<close> for a single character \<open>sep\<close>.\<close>

fun str_split :: "uchar \<Rightarrow> str \<Rightarrow> str list" where
  "str_split sep [] = [[]]"
| "str_split sep (c # cs) =
     (if c = sep then [] # str_split sep cs
      else (case str_split sep cs of
              [] \<Rightarrow> [[c]]
            | p # ps \<Rightarrow> (c # p) # ps))"

text \<open>\<^verbatim>\<open>needle in s\<close>\<close>

fun str_contains :: "str \<Rightarrow> str \<Rightarrow> bool" where
  "str_contains needle [] = (needle = [])"
| "str_contains needle (c # cs) = (prefix needle (c # cs) \<or> str_contains needle cs)"

text \<open>\<^verbatim>\<open>s.rfind(c)\<close>: the index of the last \<open>c\<close>, \<open>None\<close> for Python's \<open>-1\<close>.\<close>

definition str_rfind :: "uchar \<Rightarrow> str \<Rightarrow> nat option" where
  "str_rfind c s =
     (case dropWhile (\<lambda>x. x \<noteq> c) (rev s) of
        [] \<Rightarrow> None
      | _ # front \<Rightarrow> Some (length front))"

section \<open>Path names\<close>

text \<open>
  \<^verbatim>\<open>Path(p).name\<close> (POSIX flavour): the last of the components of \<open>p\<close> between slashes
  that are neither empty nor \<^verbatim>\<open>.\<close>, and the empty string when there is none. A directory
  entry's name holds no slash, and is its own name.
\<close>

definition path_name :: "str \<Rightarrow> str" where
  "path_name p =
     (case filter (\<lambda>x. x \<noteq> [] \<and> x \<noteq> lit ''.'') (str_split (Latin CHR ''/'') p) of
        [] \<Rightarrow> []
      | x # xs \<Rightarrow> last (x # xs))"

text \<open>
  \<^verbatim>\<open>PurePath.suffix\<close> and \<^verbatim>\<open>PurePath.stem\<close> of a name (pathlib, Python 3.13 and before):
  with \<open>i\<close> the index of the last dot, the suffix is \<^verbatim>\<open>name[i:]\<close> and the stem
  \<^verbatim>\<open>name[:i]\<close> when \<open>0 < i < len(name) - 1\<close>; otherwise the suffix is empty and the stem is
  the name.
\<close>

definition name_suffix :: "str \<Rightarrow> str" where
  "name_suffix name =
     (case str_rfind (Latin CHR ''.'') name of
        None \<Rightarrow> []
      | Some i \<Rightarrow> if 0 < i \<and> Suc i < length name then drop i name else [])"

definition name_stem :: "str \<Rightarrow> str" where
  "name_stem name =
     (case str_rfind (Latin CHR ''.'') name of
        None \<Rightarrow> name
      | Some i \<Rightarrow> if 0 < i \<and> Suc i < length name then take i name else name)"

definition path_stem :: "str \<Rightarrow> str" where
  "path_stem p = name_stem (path_name p)"

section \<open>Tool name normalization\<close>

text \<open>
  \<^verbatim>\<open>re.sub(r"(x64|x86|win32|win64)", "", name, flags=re.I)\<close>. At a position the
  alternatives are tried in the order written, ignoring case; a match is deleted and the
  scan goes on behind it, otherwise the character is kept. In the alphabet a letter or
  digit of the tokens is matched by itself and, for a letter, by its ASCII capital only,
  which are the characters whose lowercase it is.
\<close>

definition arch_tokens :: "str list" where
  "arch_tokens = [lit ''x64'', lit ''x86'', lit ''win32'', lit ''win64'']"

definition match_arch :: "str \<Rightarrow> nat option" where
  "match_arch s =
     map_option length (find (\<lambda>t. prefix t (str_lower s)) arch_tokens)"

function strip_arch :: "str \<Rightarrow> str" where
  "strip_arch [] = []"
| "strip_arch (c # cs) =
     (case match_arch (c # cs) of
        Some n \<Rightarrow> strip_arch (drop n (c # cs))
      | None \<Rightarrow> c # strip_arch cs)"
  by pat_completeness auto
termination
proof (relation "measure length")
  fix c cs n
  assume "match_arch (c # cs) = Some n"
  then have "0 < n"
    by (auto simp: match_arch_def arch_tokens_def split: if_splits)
  then show "(drop n (c # cs), c # cs) \<in> measure length"
    by simp
qed simp_all

text \<open>
  \<^verbatim>\<open>re.sub(r"v?\d+(\.\d+)*", "", name, flags=re.I)\<close>. \<open>version_tail\<close> is what the greedy
  \<^verbatim>\<open>(\.\d+)*\<close> leaves: it takes a dot only when a digit follows it. \<open>match_version\<close> is
  what a match at the start of the string leaves behind: an optional \<^verbatim>\<open>v\<close> or \<^verbatim>\<open>V\<close>
  (taken only when a digit follows, by backtracking), all the digits, and the dotted
  groups.
\<close>

function version_tail :: "str \<Rightarrow> str" where
  "version_tail s =
     (case s of
        c # d # rest \<Rightarrow>
          if c = Latin CHR ''.'' \<and> is_digit d then version_tail (dropWhile is_digit rest) else s
      | _ \<Rightarrow> s)"
  by pat_completeness auto
termination
  by (relation "measure length") (auto intro: le_imp_less_Suc le_SucI length_dropWhile_le)

definition match_version :: "str \<Rightarrow> str option" where
  "match_version s =
     (let t = (case s of
                 c # d # rest \<Rightarrow>
                   if (c = Latin CHR ''v'' \<or> c = Latin CHR ''V'') \<and> is_digit d then d # rest else s
               | _ \<Rightarrow> s)
      in case t of
           d # rest \<Rightarrow> if is_digit d then Some (version_tail (dropWhile is_digit rest)) else None
         | [] \<Rightarrow> None)"

lemma length_version_tail: "length (version_tail s) \<le> length s"
proof (induction s rule: version_tail.induct)
  case (1 s)
  show ?case
  proof (cases s)
    case Nil
    then show ?thesis by simp
  next
    case (Cons c s')
    show ?thesis
    proof (cases s')
      case Nil
      with Cons show ?thesis by simp
    next
      case (Cons d rest)
      have "length (dropWhile is_digit rest) \<le> length rest"
        by (rule length_dropWhile_le)
      with 1 \<open>s = c # s'\<close> Cons show ?thesis
        by (subst version_tail.simps) (auto simp del: version_tail.simps)
    qed
  qed
qed

lemma match_version_shape:
  assumes "match_version s = Some r"
  shows "\<exists>rest. r = version_tail (dropWhile is_digit rest) \<and> length rest < length s"
  using assms
  by (auto simp: match_version_def Let_def simp del: version_tail.simps dropWhile.simps
           split: list.splits if_splits)

lemma match_version_shorter:
  assumes "match_version s = Some r"
  shows "length r < length s"
proof -
  from match_version_shape [OF assms] obtain rest
    where r: "r = version_tail (dropWhile is_digit rest)" and l: "length rest < length s"
    by blast
  have "length r \<le> length (dropWhile is_digit rest)"
    unfolding r by (rule length_version_tail)
  also have "\<dots> \<le> length rest"
    by (rule length_dropWhile_le)
  finally show ?thesis
    using l by linarith
qed

function strip_version :: "str \<Rightarrow> str" where
  "strip_version [] = []"
| "strip_version (c # cs) =
     (case match_version (c # cs) of
        Some rest \<Rightarrow> strip_version rest
      | None \<Rightarrow> c # strip_version cs)"
  by pat_completeness auto
termination
  by (relation "measure length") (auto dest: match_version_shorter)

text \<open>
  \<^verbatim>\<open>re.split(r"[_\-...(]", name)[0]\<close>: the text before the first separator. Between the
  hyphen and the parenthesis the source file stores three code points, U+00EF, U+00BC and
  U+02C6; the alphabet holds the first two.
\<close>

definition note_separators :: "uchar list" where
  "note_separators = [Latin CHR ''_'', Latin CHR ''-'', Latin (CHR 0xEF), Latin (CHR 0xBC), Latin CHR ''('']"

definition drop_notes :: "str \<Rightarrow> str" where
  "drop_notes s = takeWhile (\<lambda>c. c \<notin> set note_separators) s"

text \<open>\<^verbatim>\<open>re.sub(r"[._\-]+", " ", name)\<close>: every maximal run of dots, underscores and
  hyphens becomes one space.\<close>

definition is_sep :: "uchar \<Rightarrow> bool" where
  "is_sep c = (c \<in> set (lit ''._-''))"

function normalize_separators :: "str \<Rightarrow> str" where
  "normalize_separators [] = []"
| "normalize_separators (c # cs) =
     (if is_sep c then Latin CHR '' '' # normalize_separators (dropWhile is_sep cs)
      else c # normalize_separators cs)"
  by pat_completeness auto
termination
  by (relation "measure length") (auto intro: le_imp_less_Suc length_dropWhile_le)

definition normalize_tool_name :: "str \<Rightarrow> str" where
  "normalize_tool_name filename =
     (let name = path_stem filename;
          name = strip_arch name;
          name = strip_version name;
          name = drop_notes name;
          name = normalize_separators name
      in str_title (str_strip name))"

section \<open>Exceptions, JSON values and the network\<close>

text \<open>
  The exceptions the script can meet. \<open>is_Exception\<close> says which of them the clause
  \<^verbatim>\<open>except Exception\<close> catches: all but \<^verbatim>\<open>KeyboardInterrupt\<close> and \<^verbatim>\<open>SystemExit\<close>, which
  derive from \<^verbatim>\<open>BaseException\<close> only.
\<close>

datatype exn =
    Timeout
  | ConnectionError
  | JSONDecodeError
  | AttributeError
  | IndexError
  | ReError
  | KeyboardInterrupt
  | SystemExit

fun is_Exception :: "exn \<Rightarrow> bool" where
  "is_Exception KeyboardInterrupt = False"
| "is_Exception SystemExit = False"
| "is_Exception _ = True"

text \<open>
  What \<^verbatim>\<open>r.json()\<close> returns. An object is the association list of its dictionary. Of a
  number the script only reads whether it is zero.
\<close>

datatype json =
    JNull
  | JBool bool
  | JNumber int
  | JString str
  | JArray "json list"
  | JObject "(str \<times> json) list"

text \<open>Python's truth value of a decoded JSON value.\<close>

fun truthy :: "json \<Rightarrow> bool" where
  "truthy JNull = False"
| "truthy (JBool b) = b"
| "truthy (JNumber n) = (n \<noteq> 0)"
| "truthy (JString s) = (s \<noteq> [])"
| "truthy (JArray xs) = (xs \<noteq> [])"
| "truthy (JObject kvs) = (kvs \<noteq> [])"

text \<open>\<^verbatim>\<open>data.get(key)\<close>: only a dictionary has the method; a missing key gives \<^verbatim>\<open>None\<close>.\<close>

fun dict_get :: "json \<Rightarrow> str \<Rightarrow> exn + json" where
  "dict_get (JObject kvs) key =
     Inr (case map_of kvs key of Some v \<Rightarrow> v | None \<Rightarrow> JNull)"
| "dict_get _ key = Inl AttributeError"

text \<open>\<^verbatim>\<open>v.split(".")[0]\<close>: only a string has the method.\<close>

fun first_sentence :: "json \<Rightarrow> exn + str" where
  "first_sentence (JString s) =
     (case str_split (Latin CHR ''.'') s of
        [] \<Rightarrow> Inl IndexError
      | p # _ \<Rightarrow> Inr p)"
| "first_sentence _ = Inl AttributeError"

datatype param = PStr str | PInt int

record request =
  url :: str
  params :: "(str \<times> param) list"
  headers :: "(str \<times> str) list option"
  timeout :: "nat option"

record response =
  status_code :: int
  json_body :: "exn + json"

text \<open>
  The network answers a request in a state \<open>'w\<close> of the outside world with an exception
  or a response, and moves to a new state. A session holds that state and the requests
  sent so far.
\<close>

type_synonym 'w network = "'w \<Rightarrow> request \<Rightarrow> (exn + response) \<times> 'w"

record 'w session =
  world :: 'w
  sent :: "request list"

definition requests_get ::
  "'w network \<Rightarrow> request \<Rightarrow> 'w session \<Rightarrow> (exn + response) \<times> 'w session" where
  "requests_get net req s =
     (case net (world s) req of
        (got, w) \<Rightarrow> (got, \<lparr>world = w, sent = sent s @ [req]\<rparr>))"

section \<open>Tool function lookup\<close>

definition HEADERS :: "(str \<times> str) list" where
  "HEADERS = [(lit ''User-Agent'', lit ''WinToolsTableGenerator/1.0'')]"

definition wiki_api :: "str \<Rightarrow> str" where
  "wiki_api tool_name =
     (lit ''https://en.wikipedia.org/api/rest_v1/page/summary/'')
       @ str_replace (Latin CHR '' '') (Latin CHR ''_'') tool_name"

text \<open>\<^verbatim>\<open>requests.get(wiki_api, headers=HEADERS, timeout=5)\<close>\<close>

definition wiki_request :: "str \<Rightarrow> request" where
  "wiki_request tool_name =
     \<lparr>url = wiki_api tool_name, params = [], headers = Some HEADERS, timeout = Some 5\<rparr>"

text \<open>\<^verbatim>\<open>requests.get(ddg_api, params={...}, timeout=5)\<close>: the call passes no headers.\<close>

definition ddg_request :: "str \<Rightarrow> request" where
  "ddg_request tool_name =
     \<lparr>url = lit ''https://api.duckduckgo.com/'',
      params = [(lit ''q'', PStr tool_name), (lit ''format'', PStr (lit ''json'')),
                (lit ''no_redirect'', PInt 1), (lit ''no_html'', PInt 1)],
      headers = None,
      timeout = Some 5\<rparr>"

text \<open>
  The body of a \<^verbatim>\<open>try\<close> block gives \<open>Inl e\<close> when it raises \<open>e\<close>, \<open>Inr (Some text)\<close> when
  it returns \<open>text\<close> from the function, and \<open>Inr None\<close> when it runs to its end.
\<close>

definition wiki_try :: "exn + response \<Rightarrow> exn + str option" where
  "wiki_try got =
     (case got of
        Inl e \<Rightarrow> Inl e
      | Inr r \<Rightarrow>
          if status_code r = 200 then
            (case json_body r of
               Inl e \<Rightarrow> Inl e
             | Inr data \<Rightarrow>
                 (case dict_get data (lit ''extract'') of
                    Inl e \<Rightarrow> Inl e
                  | Inr v \<Rightarrow>
                      if truthy v then map_sum id Some (first_sentence v) else Inr None))
          else Inr None)"

definition ddg_try :: "exn + response \<Rightarrow> exn + str option" where
  "ddg_try got =
     (case got of
        Inl e \<Rightarrow> Inl e
      | Inr r \<Rightarrow>
          (case json_body r of
             Inl e \<Rightarrow> Inl e
           | Inr data \<Rightarrow>
               (case dict_get data (lit ''AbstractText'') of
                  Inl e \<Rightarrow> Inl e
                | Inr v \<Rightarrow>
                    if truthy v then map_sum id Some (first_sentence v) else Inr None)))"

text \<open>\<^verbatim>\<open>except Exception: pass\<close>\<close>

definition except_Exception :: "exn + 'a option \<Rightarrow> exn + 'a option" where
  "except_Exception body =
     (case body of
        Inl e \<Rightarrow> if is_Exception e then Inr None else Inl e
      | Inr v \<Rightarrow> Inr v)"

definition fallback :: str where
  "fallback = lit ''Windows utility tool''"

definition query_tool_function ::
  "'w network \<Rightarrow> str \<Rightarrow> 'w session \<Rightarrow> (exn + str) \<times> 'w session" where
  "query_tool_function net tool_name s =
     (case requests_get net (wiki_request tool_name) s of
        (got1, s1) \<Rightarrow>
          (case except_Exception (wiki_try got1) of
             Inl e \<Rightarrow> (Inl e, s1)
           | Inr (Some text) \<Rightarrow> (Inr text, s1)
           | Inr None \<Rightarrow>
               (case requests_get net (ddg_request tool_name) s1 of
                  (got2, s2) \<Rightarrow>
                    (case except_Exception (ddg_try got2) of
                       Inl e \<Rightarrow> (Inl e, s2)
                     | Inr (Some text) \<Rightarrow> (Inr text, s2)
                     | Inr None \<Rightarrow> (Inr fallback, s2)))))"

section \<open>Markdown generation\<close>

definition header_line :: str where
  "header_line = lit ''| Name | Function |''"

definition separator_line :: str where
  "separator_line = lit ''| ---- | -------- |''"

text \<open>\<^verbatim>\<open>sep.join(lines)\<close>\<close>

fun str_join :: "str \<Rightarrow> str list \<Rightarrow> str" where
  "str_join sep [] = []"
| "str_join sep [x] = x"
| "str_join sep (x # y # ys) = x @ sep @ str_join sep (y # ys)"

definition table_row :: "str \<times> str \<Rightarrow> str" where
  "table_row tool = lit ''| '' @ fst tool @ (lit '' | '') @ snd tool @ (lit '' |'')"

definition build_markdown_table :: "(str \<times> str) list \<Rightarrow> str" where
  "build_markdown_table tools =
     str_join [Latin (CHR 0x0A)] ([header_line, separator_line] @ map table_row tools)"

section \<open>Replacement templates of \<^verbatim>\<open>re.sub\<close>\<close>

text \<open>
  \<^verbatim>\<open>re.sub\<close> reads its replacement string as a template before it substitutes (CPython 3.12
  and 3.13, \<^verbatim>\<open>re._parser.parse_template\<close>). For a pattern without groups, as the table
  pattern is: a character other than a backslash stands for itself; \<^verbatim>\<open>\g<0>\<close> (any
  all-digit name of value zero) is the whole match, every other \<^verbatim>\<open>\g<name>\<close> raises
  (\<^verbatim>\<open>IndexError\<close> for an identifier, \<^verbatim>\<open>re.error\<close> otherwise); \<^verbatim>\<open>\0\<close> with up to two more
  octal digits, and three octal digits, are the character of that code; any other digit is
  a reference to a group that does not exist; \<^verbatim>\<open>\a \b \f \n \r \t \v \\\<close> are the usual
  characters; a backslash before another ASCII letter, or at the end, raises; before any
  other character both are kept.
\<close>

datatype tmpl = Lit str | Group0

definition backslash :: uchar where
  "backslash = Latin (CHR 0x5C)"

definition is_octdigit :: "uchar \<Rightarrow> bool" where
  "is_octdigit c = (c \<in> set (lit ''01234567''))"

definition digit_val :: "uchar \<Rightarrow> nat" where
  "digit_val c = code_point c - 0x30"

text \<open>\<^verbatim>\<open>int(digits, base)\<close>\<close>

definition int_of_digits :: "nat \<Rightarrow> str \<Rightarrow> nat" where
  "int_of_digits base ds = foldl (\<lambda>n d. n * base + digit_val d) 0 ds"

text \<open>
  \<^verbatim>\<open>name.isidentifier()\<close>: in the alphabet the characters that can start an identifier
  are the cased ones and the underscore; the digits and the middle dot U+00B7 can follow.
\<close>

definition is_identifier :: "str \<Rightarrow> bool" where
  "is_identifier name =
     (case name of
        [] \<Rightarrow> False
      | c # cs \<Rightarrow>
          (is_cased c \<or> c = Latin CHR ''_'')
          \<and> list_all (\<lambda>x. is_cased x \<or> is_digit x \<or> x = Latin CHR ''_''
                            \<or> x = Latin (CHR 0xB7)) cs)"

text \<open>The ASCII letters, the only characters before which a backslash must make a known
  escape.\<close>

definition is_ascii_letter :: "uchar \<Rightarrow> bool" where
  "is_ascii_letter c =
     (let n = code_point c in (0x41 \<le> n \<and> n \<le> 0x5A) \<or> (0x61 \<le> n \<and> n \<le> 0x7A))"

definition simple_escapes :: "(uchar \<times> uchar) list" where
  "simple_escapes =
     [(Latin CHR ''a'', Latin (CHR 0x07)), (Latin CHR ''b'', Latin (CHR 0x08)), (Latin CHR ''f'', Latin (CHR 0x0C)),
      (Latin CHR ''n'', Latin (CHR 0x0A)), (Latin CHR ''r'', Latin (CHR 0x0D)), (Latin CHR ''t'', Latin (CHR 0x09)),
      (Latin CHR ''v'', Latin (CHR 0x0B)), (backslash, backslash)]"

text \<open>
  \<open>parse_escape c rest\<close> reads the escape that starts with a backslash and \<open>c\<close>: the item
  it stands for and the number of characters of \<open>rest\<close> it takes.
\<close>

definition parse_group_name :: "str \<Rightarrow> exn + tmpl \<times> nat" where
  "parse_group_name rest =
     (case rest of
        [] \<Rightarrow> Inl ReError
      | lt # after \<Rightarrow>
          if lt \<noteq> Latin CHR ''<'' then Inl ReError
          else let name = takeWhile (\<lambda>x. x \<noteq> Latin CHR ''>'') after in
            if length name = length after then Inl ReError
            else if name = [] then Inl ReError
            else if list_all is_digit name then
              (if int_of_digits 10 name = 0 then Inr (Group0, length name + 2)
               else Inl ReError)
            else if is_identifier name then Inl IndexError
            else Inl ReError)"

definition parse_escape :: "uchar \<Rightarrow> str \<Rightarrow> exn + tmpl \<times> nat" where
  "parse_escape c rest =
     (if c = Latin CHR ''g'' then parse_group_name rest
      else if c = Latin CHR ''0'' then
        (let ds = takeWhile is_octdigit (take 2 rest)
         in Inr (Lit [Latin (char_of (int_of_digits 8 ds mod 256))], length ds))
      else if is_digit c then
        (case rest of
           d # e # _ \<Rightarrow>
             if is_digit d \<and> is_octdigit c \<and> is_octdigit d \<and> is_octdigit e then
               (let n = int_of_digits 8 [c, d, e]
                in if n > 255 then Inl ReError else Inr (Lit [Latin (char_of n)], 2))
             else Inl ReError
         | _ \<Rightarrow> Inl ReError)
      else
        (case map_of simple_escapes c of
           Some x \<Rightarrow> Inr (Lit [x], 0)
         | None \<Rightarrow>
             if is_ascii_letter c then Inl ReError else Inr (Lit [backslash, c], 0)))"

function parse_template :: "str \<Rightarrow> exn + tmpl list" where
  "parse_template [] = Inr []"
| "parse_template (c # cs) =
     (if c \<noteq> backslash then map_sum id (Cons (Lit [c])) (parse_template cs)
      else (case cs of
              [] \<Rightarrow> Inl ReError
            | e # rest \<Rightarrow>
                (case parse_escape e rest of
                   Inl err \<Rightarrow> Inl err
                 | Inr (item, n) \<Rightarrow> map_sum id (Cons item) (parse_template (drop n rest)))))"
  by pat_completeness auto
termination
  by (relation "measure length") auto

text \<open>The replacement text of a match.\<close>

fun expand_template :: "tmpl list \<Rightarrow> str \<Rightarrow> str" where
  "expand_template [] whole = []"
| "expand_template (Lit s # items) whole = s @ expand_template items whole"
| "expand_template (Group0 # items) whole = whole @ expand_template items whole"

section \<open>Markdown update logic\<close>

text \<open>
  The pattern \<^verbatim>\<open>r"\| Name \| Function \|[\s\S]*?$"\<close> under \<^verbatim>\<open>re.MULTILINE\<close>: the header
  text, then as few characters as possible up to a place where \<^verbatim>\<open>$\<close> holds, which is the
  end of the string or the place before a line feed. \<open>match_table s\<close> is the match at the
  start of \<open>s\<close> and the text behind it.
\<close>

definition not_newline :: "uchar \<Rightarrow> bool" where
  "not_newline c = (c \<noteq> Latin (CHR 0x0A))"

definition match_table :: "str \<Rightarrow> (str \<times> str) option" where
  "match_table s =
     (if prefix header_line s then
        (let rest = drop (length header_line) s
         in Some (header_line @ takeWhile not_newline rest, dropWhile not_newline rest))
      else None)"

lemma match_table_shorter:
  assumes "match_table s = Some (whole, rest)"
  shows "length rest < length s"
proof -
  from assms have p: "prefix header_line s"
    and r: "rest = dropWhile not_newline (drop (length header_line) s)"
    by (auto simp: match_table_def Let_def split: if_splits)
  from p have "length header_line \<le> length s"
    by (rule prefix_length_le)
  moreover have "0 < length header_line"
    by (simp add: header_line_def)
  moreover have "length rest \<le> length (drop (length header_line) s)"
    unfolding r by (rule length_dropWhile_le)
  moreover have "length (drop (length header_line) s) = length s - length header_line"
    by (rule length_drop)
  ultimately show ?thesis
    by linarith
qed

text \<open>
  \<^verbatim>\<open>re.sub(pattern, template, s)\<close> with no count: every match, from left to right, is
  replaced, and the search goes on behind the match.
\<close>

function sub_table :: "tmpl list \<Rightarrow> str \<Rightarrow> str" where
  "sub_table t [] = []"
| "sub_table t (c # cs) =
     (case match_table (c # cs) of
        Some (whole, rest) \<Rightarrow> expand_template t whole @ sub_table t rest
      | None \<Rightarrow> c # sub_table t cs)"
  by pat_completeness auto
termination
  by (relation "measure (\<lambda>(t, s). length s)") (auto dest: match_table_shorter)

text \<open>
  \<open>update_markdown_file md table_content\<close>: \<open>md\<close> is the text of the target file as
  \<^verbatim>\<open>read_text\<close> returns it, \<open>None\<close> when the file does not exist; the result is the text the
  function hands to \<^verbatim>\<open>write_text\<close>,
  or the exception \<^verbatim>\<open>re.sub\<close> raises before anything is written. Errors of the file
  system (a path that cannot be read, written or decoded) are outside the model.
\<close>

definition update_markdown_file :: "str option \<Rightarrow> str \<Rightarrow> exn + str" where
  "update_markdown_file md table_content =
     (case md of
        Some original_content \<Rightarrow>
          if str_contains header_line original_content then
            (case parse_template table_content of
               Inl e \<Rightarrow> Inl e
             | Inr t \<Rightarrow> Inr (sub_table t original_content))
          else Inr (original_content @ [Latin (CHR 0x0A), Latin (CHR 0x0A)] @ table_content)
      | None \<Rightarrow> Inr table_content)"

section \<open>Main execution\<close>

definition SUPPORTED_EXTENSIONS :: "str list" where
  "SUPPORTED_EXTENSIONS = [lit ''.7z'', lit ''.zip'', lit ''.rar'', lit ''.exe'']"

record dir_entry =
  entry_name :: str
  is_file :: bool

text \<open>\<^verbatim>\<open>item.is_file() and item.suffix.lower() in SUPPORTED_EXTENSIONS\<close>\<close>

definition is_tool_file :: "dir_entry \<Rightarrow> bool" where
  "is_tool_file item =
     (is_file item \<and> str_lower (name_suffix (entry_name item)) \<in> set SUPPORTED_EXTENSIONS)"

text \<open>The loop over \<^verbatim>\<open>tools_dir.iterdir()\<close>, in the order the directory gives.\<close>

fun collect_tools ::
  "'w network \<Rightarrow> dir_entry list \<Rightarrow> (str \<times> str) list \<Rightarrow> 'w session
     \<Rightarrow> (exn + (str \<times> str) list) \<times> 'w session" where
  "collect_tools net [] collected s = (Inr collected, s)"
| "collect_tools net (item # items) collected s =
     (if is_tool_file item then
        (let tool_name = normalize_tool_name (entry_name item)
         in case query_tool_function net tool_name s of
              (Inl e, s1) \<Rightarrow> (Inl e, s1)
            | (Inr function, s1) \<Rightarrow>
                collect_tools net items (collected @ [(tool_name, function)]) s1)
      else collect_tools net items collected s)"

text \<open>
  \<open>main net listing md s\<close>: \<open>listing\<close> is the script's directory as \<^verbatim>\<open>iterdir\<close> gives it
  and \<open>md\<close> the target file. The result is the text written to the target file, or the
  exception that ends the run. \<^verbatim>\<open>list.sort\<close> is stable, as \<open>sort_key\<close> is, and Python
  orders strings by their code points. The two lines printed at the end are left out.
\<close>

definition main ::
  "'w network \<Rightarrow> dir_entry list \<Rightarrow> str option \<Rightarrow> 'w session
     \<Rightarrow> (exn + str) \<times> 'w session" where
  "main net listing md s =
     (case collect_tools net listing [] s of
        (Inl e, s1) \<Rightarrow> (Inl e, s1)
      | (Inr collected_tools, s1) \<Rightarrow>
          (let sorted_tools = sort_key (\<lambda>x. map code_point (str_lower (fst x))) collected_tools;
               markdown_table = build_markdown_table sorted_tools
           in (update_markdown_file md markdown_table, s1)))"

section \<open>Notions used by the properties\<close>

text \<open>The number of places of \<open>s\<close> where \<open>needle\<close> starts.\<close>

fun occurrences :: "str \<Rightarrow> str \<Rightarrow> nat" where
  "occurrences needle [] = (if needle = [] then 1 else 0)"
| "occurrences needle (c # cs) =
     (if prefix needle (c # cs) then 1 else 0) + occurrences needle cs"

text \<open>A target file that does not exist, or holds the header text at one place at most.\<close>

fun at_most_one_header :: "str option \<Rightarrow> bool" where
  "at_most_one_header None = True"
| "at_most_one_header (Some original) = (occurrences header_line original \<le> 1)"

text \<open>
  \<^verbatim>\<open>s.istitle()\<close>: no uppercase character follows a cased one, every lowercase character
  does, and there is a cased character. The flags are the casedness of the previous
  character and whether a cased character has been seen.
\<close>

fun istitle_from :: "bool \<Rightarrow> bool \<Rightarrow> str \<Rightarrow> bool" where
  "istitle_from prev seen [] = seen"
| "istitle_from prev seen (c # cs) =
     (if is_upper c then \<not> prev \<and> istitle_from True True cs
      else if is_lower c then prev \<and> istitle_from True True cs
      else istitle_from False seen cs)"

definition is_titlecased :: "str \<Rightarrow> bool" where
  "is_titlecased s = istitle_from False False s"




text \<open>
  A lookup that fails, as the code reads its outcome. The decoded body has a text under
  a key when it is a dictionary that holds a string that is not empty there. The first
  lookup fails when the call or the decoding raises an exception that
  \<^verbatim>\<open>except Exception\<close> catches, when the status is not 200, or when the body has no text
  under \<^verbatim>\<open>extract\<close>; the second when the call or the decoding raises such an exception or
  the body has no text under \<^verbatim>\<open>AbstractText\<close>.
\<close>

definition has_text :: "json \<Rightarrow> str \<Rightarrow> bool" where
  "has_text data key =
     (case data of
        JObject kvs \<Rightarrow>
          (case map_of kvs key of
             Some (JString s) \<Rightarrow> s \<noteq> []
           | _ \<Rightarrow> False)
      | _ \<Rightarrow> False)"

definition wiki_fails :: "exn + response \<Rightarrow> bool" where
  "wiki_fails got =
     (case got of
        Inl e \<Rightarrow> is_Exception e
      | Inr r \<Rightarrow>
          status_code r \<noteq> 200
          \<or> (case json_body r of
                Inl e \<Rightarrow> is_Exception e
              | Inr data \<Rightarrow> \<not> has_text data (lit ''extract'')))"

definition ddg_fails :: "exn + response \<Rightarrow> bool" where
  "ddg_fails got =
     (case got of
        Inl e \<Rightarrow> is_Exception e
      | Inr r \<Rightarrow>
          (case json_body r of
             Inl e \<Rightarrow> is_Exception e
           | Inr data \<Rightarrow> \<not> has_text data (lit ''AbstractText'')))"

text \<open>
  A network for examples: it answers the call to the instant-answer address with \<open>ddg\<close>
  and every other call with \<open>wiki\<close>; its state counts the calls it has answered.
\<close>

definition scripted :: "exn + response \<Rightarrow> exn + response \<Rightarrow> nat network" where
  "scripted wiki ddg w req =
     (if url req = lit ''https://api.duckduckgo.com/'' then ddg else wiki, Suc w)"

section \<open>Auxiliary facts\<close>

subsection \<open>Strings\<close>

lemma str_contains_sublist: "str_contains needle s = sublist needle s"
  by (induction s) (auto simp: sublist_Cons_right)

lemma str_split_first:
  "\<exists>ps. str_split sep s = takeWhile (\<lambda>c. c \<noteq> sep) s # ps"
  by (induction s) (auto split: list.splits)

lemma first_sentence_string:
  "first_sentence (JString s) = Inr (takeWhile (\<lambda>c. c \<noteq> Latin CHR ''.'') s)"
  using str_split_first [of "Latin CHR ''.''" s] by auto

lemma occurrences_pos: "(0 < occurrences needle s) = sublist needle s"
  by (induction s) (auto simp: sublist_Cons_right)

lemma occurrences_zero: "(occurrences needle s = 0) = (\<not> sublist needle s)"
  using occurrences_pos [of needle s] by auto

lemma prefix_long: "length h \<le> length u \<Longrightarrow> prefix h (u @ y) = prefix h u"
  by (auto simp: prefix_append)

lemma prefix_before_newline:
  assumes "tail = [] \<or> hd tail = Latin (CHR 0x0A)" and "Latin (CHR 0x0A) \<notin> set h"
  shows "prefix h (u @ tail) = prefix h u"
proof
  assume "prefix h (u @ tail)"
  then have "prefix h u \<or> (\<exists>us. h = u @ us \<and> prefix us tail)"
    by (simp add: prefix_append)
  then show "prefix h u"
  proof
    assume "prefix h u"
    then show ?thesis .
  next
    assume "\<exists>us. h = u @ us \<and> prefix us tail"
    then obtain us where h: "h = u @ us" and p: "prefix us tail"
      by blast
    show ?thesis
    proof (cases us)
      case Nil
      with h show ?thesis by simp
    next
      case (Cons a us')
      with p obtain tail' where "tail = a # tail'"
        by (cases tail) auto
      with assms(1) have "a = Latin (CHR 0x0A)" by simp
      with h Cons assms(2) show ?thesis by simp
    qed
  qed
next
  assume "prefix h u"
  then show "prefix h (u @ tail)" by (rule prefix_prefix)
qed

lemma occurrences_before_newline:
  assumes "tail = [] \<or> hd tail = Latin (CHR 0x0A)" and "Latin (CHR 0x0A) \<notin> set h"
    and "h \<noteq> []"
  shows "occurrences h (u @ tail) = occurrences h u + occurrences h tail"
proof (induction u)
  case Nil
  from assms(3) show ?case by simp
next
  case (Cons c u)
  have "prefix h ((c # u) @ tail) = prefix h (c # u)"
    using assms(1,2) by (rule prefix_before_newline)
  with Cons show ?case by simp
qed

subsection \<open>Letters and digits\<close>


























subsection \<open>The steps of the normalization\<close>







subsection \<open>Templates and the table substitution\<close>

lemma parse_template_plain:
  "backslash \<notin> set t \<Longrightarrow> parse_template t = Inr (map (\<lambda>c. Lit [c]) t)"
  by (induction t) auto

lemma expand_template_plain: "expand_template (map (\<lambda>c. Lit [c]) t) whole = t"
  by (induction t) auto

lemma header_line_facts:
  "header_line \<noteq> []" "Latin (CHR 0x0A) \<notin> set header_line" "length header_line = 19"
  by (simp_all add: header_line_def)

lemma match_table_None: "(match_table s = None) = (\<not> prefix header_line s)"
  by (simp add: match_table_def Let_def)

lemma match_table_Some:
  "match_table s = Some (whole, rest) \<Longrightarrow>
     prefix header_line s \<and> rest = dropWhile not_newline (drop (length header_line) s)"
  by (auto simp: match_table_def Let_def split: if_splits)

lemma dropWhile_not_newline:
  "dropWhile not_newline r = [] \<or> hd (dropWhile not_newline r) = Latin (CHR 0x0A)"
  using hd_dropWhile [of not_newline r] by (auto simp: not_newline_def)

lemma sub_table_no_header: "\<not> sublist header_line s \<Longrightarrow> sub_table items s = s"
proof (induction items s rule: sub_table.induct)
  case (1 items)
  then show ?case by simp
next
  case (2 items c cs)
  from "2.prems" have n: "\<not> prefix header_line (c # cs)" and "\<not> sublist header_line cs"
    by (simp_all add: sublist_Cons_right)
  with 2 show ?case
    by (simp add: match_table_None [symmetric])
qed

text \<open>Where the header is replaced by a fixed text, that text is in the result.\<close>

lemma sub_table_contains:
  assumes "\<forall>whole. expand_template items whole = t" and "sublist header_line s"
  shows "sublist t (sub_table items s)"
  using assms
proof (induction items s rule: sub_table.induct)
  case (1 items)
  then show ?case by (simp add: header_line_def)
next
  case (2 items c cs)
  show ?case
  proof (cases "match_table (c # cs)")
    case None
    then have "\<not> prefix header_line (c # cs)"
      by (simp add: match_table_None)
    with "2.prems" have "sublist header_line cs"
      by (simp add: sublist_Cons_right)
    with 2 None have "sublist t (sub_table items cs)"
      by simp
    with None show ?thesis
      by (simp add: sublist_Cons_right)
  next
    case (Some p)
    then obtain whole rest where p: "p = (whole, rest)" by (cases p)
    with Some "2.prems" have "sub_table items (c # cs) = [] @ t @ sub_table items rest"
      by simp
    then show ?thesis
      by (simp only: sublist_appendI)
  qed
qed

text \<open>
  A replacement that starts with the header leaves the text up to the end of the first
  header as it was, so no header can start earlier in the result than in the source.
\<close>

lemma sub_table_same_start:
  assumes "\<forall>whole. expand_template items whole = t" and "prefix header_line t"
  shows "prefix header_line (x @ sub_table items s) = prefix header_line (x @ s)"
  using assms
proof (induction items s arbitrary: x rule: sub_table.induct)
  case (1 items)
  then show ?case by simp
next
  case (2 items c cs)
  show ?case
  proof (cases "match_table (c # cs)")
    case None
    from "2.IH"(1) [OF None "2.prems", of "x @ [c]"] None show ?thesis
      by simp
  next
    case (Some p)
    obtain whole rest where p: "p = (whole, rest)" by (cases p)
    from Some p have h: "prefix header_line (c # cs)"
      by (auto dest: match_table_Some)
    then obtain r where r: "c # cs = header_line @ r"
      by (auto simp: prefix_def)
    from "2.prems"(2) obtain t' where t': "t = header_line @ t'"
      by (auto simp: prefix_def)
    have "prefix header_line ((x @ header_line) @ t' @ sub_table items rest)
            = prefix header_line (x @ header_line)"
      by (rule prefix_long) simp
    moreover have "prefix header_line ((x @ header_line) @ r)
            = prefix header_line (x @ header_line)"
      by (rule prefix_long) simp
    moreover from Some p "2.prems"(1)
    have "sub_table items (c # cs) = header_line @ t' @ sub_table items rest"
      by (simp add: t')
    ultimately show ?thesis
      by (simp add: r)
  qed
qed

lemma sub_table_one_header:
  assumes "\<forall>whole. expand_template items whole = t" and "prefix header_line t"
    and "occurrences header_line t = 1" and "occurrences header_line s = 1"
  shows "occurrences header_line (sub_table items s) = 1"
  using assms
proof (induction items s rule: sub_table.induct)
  case (1 items)
  then show ?case by (simp add: header_line_facts)
next
  case (2 items c cs)
  show ?case
  proof (cases "match_table (c # cs)")
    case None
    then have n: "\<not> prefix header_line (c # cs)"
      by (simp add: match_table_None)
    with "2.prems" have "occurrences header_line cs = 1"
      by simp
    with "2.IH"(1) [OF None] "2.prems"
    have "occurrences header_line (sub_table items cs) = 1"
      by simp
    moreover have "prefix header_line ([c] @ sub_table items cs)
                     = prefix header_line ([c] @ cs)"
      using "2.prems"(1,2) by (rule sub_table_same_start)
    ultimately show ?thesis
      using None n by simp
  next
    case (Some p)
    obtain whole rest where p: "p = (whole, rest)" by (cases p)
    from Some p have h: "prefix header_line (c # cs)"
      and rest: "rest = dropWhile not_newline (drop (length header_line) (c # cs))"
      by (auto dest: match_table_Some)
    from h "2.prems"(4) have "occurrences header_line cs = 0"
      by simp
    then have "\<not> sublist header_line cs"
      by (simp add: occurrences_zero)
    moreover have "sublist rest cs"
    proof -
      have "suffix rest (drop (length header_line) (c # cs))"
        unfolding rest by (rule suffix_dropWhile)
      moreover have "suffix (drop (length header_line) (c # cs)) cs"
        by (simp add: header_line_facts suffix_drop)
      ultimately show ?thesis
        by (meson suffix_order.order_trans suffix_imp_sublist)
    qed
    ultimately have no: "\<not> sublist header_line rest"
      by (meson sublist_order.order_trans)
    then have "sub_table items rest = rest"
      by (rule sub_table_no_header)
    with Some p "2.prems"(1) have eq: "sub_table items (c # cs) = t @ rest"
      by simp
    have "rest = [] \<or> hd rest = Latin (CHR 0x0A)"
      unfolding rest by (rule dropWhile_not_newline)
    then have "occurrences header_line (t @ rest)
                 = occurrences header_line t + occurrences header_line rest"
      by (rule occurrences_before_newline) (simp_all add: header_line_facts)
    with no "2.prems"(3) eq show ?thesis
      by (simp add: occurrences_zero)
  qed
qed

lemma prefix_header_table: "prefix header_line (build_markdown_table tools)"
  by (cases tools) (simp_all add: build_markdown_table_def)

text \<open>
  A backslash in the table text is read as an escape: here the row's \<^verbatim>\<open>\g<0>\<close> is
  replaced by the matched header, and the file ends with the header at two places.
\<close>

lemma update_template_escape:
  "update_markdown_file (Some (lit ''| Name | Function |''))
     (build_markdown_table [(lit ''X'', lit ([CHR 0x5C] @ ''g<0>''))])
   = Inr (lit (''| Name | Function |'' @ [CHR 0x0A] @ ''| ---- | -------- |'' @ [CHR 0x0A]
               @ ''| X | | Name | Function | |''))"
  by code_simp

subsection \<open>Lookups and the driver's loop\<close>

lemma has_text_try:
  "(case dict_get data key of
      Inl e \<Rightarrow> Inl e
    | Inr v \<Rightarrow> if truthy v then map_sum id Some (first_sentence v) else Inr None)
   = (if has_text data key
      then (case dict_get data key of
              Inl e \<Rightarrow> Inl e
            | Inr v \<Rightarrow> map_sum id Some (first_sentence v))
      else (case data of JObject kvs \<Rightarrow>
              (case map_of kvs key of
                 None \<Rightarrow> Inr None
               | Some v \<Rightarrow> if truthy v then Inl AttributeError else Inr None)
            | _ \<Rightarrow> Inl AttributeError))"
  by (cases data; simp add: has_text_def split: option.splits json.splits)

lemma wiki_fails_no_text:
  "wiki_fails got \<Longrightarrow> except_Exception (wiki_try got) = Inr None"
  by (auto simp: wiki_fails_def wiki_try_def except_Exception_def has_text_try
           simp del: first_sentence.simps dict_get.simps
           split: sum.splits option.splits json.splits)

lemma ddg_fails_no_text:
  "ddg_fails got \<Longrightarrow> except_Exception (ddg_try got) = Inr None"
  by (auto simp: ddg_fails_def ddg_try_def except_Exception_def has_text_try
           simp del: first_sentence.simps dict_get.simps
           split: sum.splits option.splits json.splits)

lemma query_all_fail:
  assumes "\<forall>w name. wiki_fails (fst (net w (wiki_request name)))
                     \<and> ddg_fails (fst (net w (ddg_request name)))"
  shows "\<exists>s'. query_tool_function net tool_name s = (Inr fallback, s')"
proof -
  obtain got1 w1 where 1: "net (world s) (wiki_request tool_name) = (got1, w1)"
    by (cases "net (world s) (wiki_request tool_name)")
  obtain got2 w2 where 2: "net w1 (ddg_request tool_name) = (got2, w2)"
    by (cases "net w1 (ddg_request tool_name)")
  from assms 1 have "wiki_fails got1"
    by (metis fst_conv)
  then have a: "except_Exception (wiki_try got1) = Inr None"
    by (rule wiki_fails_no_text)
  from assms 2 have "ddg_fails got2"
    by (metis fst_conv)
  then have b: "except_Exception (ddg_try got2) = Inr None"
    by (rule ddg_fails_no_text)
  from 1 2 a b show ?thesis
    by (simp add: query_tool_function_def requests_get_def)
qed

lemma collect_tools_filter:
  "collect_tools net listing collected s
     = collect_tools net (filter is_tool_file listing) collected s"
  by (induction listing arbitrary: collected s)
     (auto simp: Let_def split: sum.splits prod.splits)

lemma collect_two_tools:
  assumes fail: "\<forall>w name. wiki_fails (fst (net w (wiki_request name)))
                           \<and> ddg_fails (fst (net w (ddg_request name)))"
    and "is_tool_file a" and "is_tool_file b"
  shows "\<exists>s'. collect_tools net [a, b] [] s
             = (Inr [(normalize_tool_name (entry_name a), fallback),
                     (normalize_tool_name (entry_name b), fallback)], s')"
proof -
  from query_all_fail [OF fail] obtain s1
    where 1: "query_tool_function net (normalize_tool_name (entry_name a)) s
                = (Inr fallback, s1)"
    by blast
  from query_all_fail [OF fail] obtain s2
    where 2: "query_tool_function net (normalize_tool_name (entry_name b)) s1
                = (Inr fallback, s2)"
    by blast
  from assms(2,3) 1 2 show ?thesis by simp
qed

text \<open>A file named by its tokens only has no name left.\<close>

lemma normalize_empty_name:
  "normalize_tool_name (lit ''x64_v1.zip'') = [] \<and> \<not> is_titlecased []"
  by code_simp

text \<open>
  The version pattern takes decimal digits only: the superscript two U+00B2, of which
  \<^verbatim>\<open>str.isdigit\<close> holds and which \<^verbatim>\<open>\d\<close> does not match, stays in the name.
\<close>

lemma normalize_keeps_superscript:
  "normalize_tool_name (lit ''a'' @ [Latin (CHR 0xB2)] @ lit ''_x64_v1.zip'')
     = [Latin CHR ''A'', Latin (CHR 0xB2)]"
  by code_simp

section \<open>The claims\<close>

subsection \<open>Document updater\<close>

text \<open>
  C1. The claim: when the target file holds the header line, the new file is the text
  before the header followed by the new table, everything from the header to the end of
  the file being replaced. The code does not do this. The lazy \<^verbatim>\<open>[\s\S]*?\<close> stops at the
  first place where \<^verbatim>\<open>$\<close> holds, and under \<^verbatim>\<open>re.MULTILINE\<close> that is the end of the
  header's own line: only that line is replaced, and the separator and the rows of the old
  table stay behind the new one. The theorem runs the function on a file with an old table
  of one row.
\<close>

theorem update_markdown_file_keeps_old_rows:
  "update_markdown_file
     (Some (lit ''# Tools'' @ [Latin (CHR 0x0A)] @ lit ''| Name | Function |'' @ [Latin (CHR 0x0A)]
            @ lit ''| ---- | -------- |'' @ [Latin (CHR 0x0A)] @ lit ''| Old | x |''))
     (build_markdown_table [(lit ''New'', lit ''y'')])
   = Inr (lit ''# Tools'' @ [Latin (CHR 0x0A)] @ lit ''| Name | Function |'' @ [Latin (CHR 0x0A)]
          @ lit ''| ---- | -------- |'' @ [Latin (CHR 0x0A)] @ lit ''| New | y |'' @ [Latin (CHR 0x0A)]
          @ lit ''| ---- | -------- |'' @ [Latin (CHR 0x0A)] @ lit ''| Old | x |'')"
  by code_simp

text \<open>
  C6, as amended. When the target file does not exist or holds the header text at one
  place at most, and the rendered table holds the header text at one place only (its first
  line) and no backslash, \<open>update_markdown_file\<close> writes a text that holds the header text
  at exactly one place. (A backslash would be read as an escape of the replacement
  template, see \<open>update_template_escape\<close>.)
\<close>

theorem update_exactly_one_header:
  assumes "at_most_one_header md"
    and "occurrences header_line (build_markdown_table tools) = 1"
    and "backslash \<notin> set (build_markdown_table tools)"
  shows "\<exists>content. update_markdown_file md (build_markdown_table tools) = Inr content
           \<and> occurrences header_line content = 1"
proof (cases md)
  case None
  with assms(2) show ?thesis
    by (simp add: update_markdown_file_def)
next
  case (Some original)
  with assms(1) have le: "occurrences header_line original \<le> 1"
    by simp
  let ?t = "build_markdown_table tools"
  show ?thesis
  proof (cases "str_contains header_line original")
    case True
    then have "0 < occurrences header_line original"
      by (simp add: occurrences_pos str_contains_sublist)
    with le have one: "occurrences header_line original = 1"
      by simp
    have "occurrences header_line (sub_table (map (\<lambda>c. Lit [c]) ?t) original) = 1"
      using _ prefix_header_table assms(2) one
      by (rule sub_table_one_header) (simp add: expand_template_plain)
    with True Some assms(3) show ?thesis
      by (simp add: update_markdown_file_def parse_template_plain)
  next
    case False
    then have zero: "occurrences header_line original = 0"
      by (simp add: occurrences_zero str_contains_sublist)
    have "occurrences header_line (original @ (Latin (CHR 0x0A) # Latin (CHR 0x0A) # ?t))
            = occurrences header_line original
              + occurrences header_line (Latin (CHR 0x0A) # Latin (CHR 0x0A) # ?t)"
      by (rule occurrences_before_newline) (simp_all add: header_line_facts)
    moreover have "occurrences header_line (Latin (CHR 0x0A) # Latin (CHR 0x0A) # ?t)
                     = occurrences header_line ?t"
      by (simp add: header_line_def)
    ultimately have "occurrences header_line (original @ [Latin (CHR 0x0A), Latin (CHR 0x0A)] @ ?t) = 1"
      using zero assms(2) by simp
    with False Some show ?thesis
      by (simp add: update_markdown_file_def)
  qed
qed

text \<open>
  The witness: a file with a title and an old table of one row, and a new table of one
  row. (The old separator and row stay in the file, as under C1; the header is there once.)
\<close>

theorem update_exactly_one_header_witness:
  "at_most_one_header
     (Some (lit ''# Tools'' @ [Latin (CHR 0x0A)] @ lit ''| Name | Function |'' @ [Latin (CHR 0x0A)]
            @ lit ''| ---- | -------- |'' @ [Latin (CHR 0x0A)] @ lit ''| Old | x |''))
   \<and> occurrences header_line (build_markdown_table [(lit ''New'', lit ''y'')]) = 1
   \<and> backslash \<notin> set (build_markdown_table [(lit ''New'', lit ''y'')])
   \<and> (\<exists>content.
         update_markdown_file
           (Some (lit ''# Tools'' @ [Latin (CHR 0x0A)] @ lit ''| Name | Function |'' @ [Latin (CHR 0x0A)]
                  @ lit ''| ---- | -------- |'' @ [Latin (CHR 0x0A)] @ lit ''| Old | x |''))
           (build_markdown_table [(lit ''New'', lit ''y'')]) = Inr content
         \<and> occurrences header_line content = 1)"
proof -
  let ?md = "Some (lit ''# Tools'' @ [Latin (CHR 0x0A)] @ lit ''| Name | Function |'' @ [Latin (CHR 0x0A)]
                   @ lit ''| ---- | -------- |'' @ [Latin (CHR 0x0A)] @ lit ''| Old | x |'')"
  have a: "at_most_one_header ?md"
    by code_simp
  have b: "occurrences header_line (build_markdown_table [(lit ''New'', lit ''y'')]) = 1"
    by code_simp
  have c: "backslash \<notin> set (build_markdown_table [(lit ''New'', lit ''y'')])"
    by code_simp
  from update_exactly_one_header [OF a b c] a b c show ?thesis
    by blast
qed

text \<open>
  The claim as it stands puts no condition on the table text, and fails. A tool named
  \<^verbatim>\<open>Name\<close> whose description is \<^verbatim>\<open>Function\<close> is rendered as a row equal to the header,
  and a target file that did not exist then holds the header text at two places.
\<close>

theorem update_two_headers_counterexample:
  "at_most_one_header None
   \<and> update_markdown_file None (build_markdown_table [(lit ''Name'', lit ''Function'')])
       = Inr (lit ''| Name | Function |'' @ [Latin (CHR 0x0A)] @ lit ''| ---- | -------- |'' @ [Latin (CHR 0x0A)]
              @ lit ''| Name | Function |'')
   \<and> occurrences header_line
         (lit ''| Name | Function |'' @ [Latin (CHR 0x0A)] @ lit ''| ---- | -------- |'' @ [Latin (CHR 0x0A)]
          @ lit ''| Name | Function |'') = 2"
  by code_simp

subsection \<open>Name normalizer\<close>




text \<open>
  C8. \<open>normalize_tool_name\<close> maps \<^verbatim>\<open>DiskGeniusPro_x64_v1.2.3.7z\<close> to \<^verbatim>\<open>Diskgeniuspro\<close>, by
  its steps in their fixed order: the stem, without the architecture tokens, without the
  version tokens, cut at the first separator, with the separators that are left collapsed,
  stripped and title-cased.
\<close>

theorem normalize_DiskGeniusPro:
  "normalize_tool_name (lit ''DiskGeniusPro_x64_v1.2.3.7z'') = lit ''Diskgeniuspro''
   \<and> path_stem (lit ''DiskGeniusPro_x64_v1.2.3.7z'') = lit ''DiskGeniusPro_x64_v1.2.3''
   \<and> strip_arch (lit ''DiskGeniusPro_x64_v1.2.3'') = lit ''DiskGeniusPro__v1.2.3''
   \<and> strip_version (lit ''DiskGeniusPro__v1.2.3'') = lit ''DiskGeniusPro__''
   \<and> drop_notes (lit ''DiskGeniusPro__'') = lit ''DiskGeniusPro''
   \<and> normalize_separators (lit ''DiskGeniusPro'') = lit ''DiskGeniusPro''
   \<and> str_title (str_strip (lit ''DiskGeniusPro'')) = lit ''Diskgeniuspro''
   \<and> (\<forall>filename. normalize_tool_name filename =
         str_title (str_strip (normalize_separators (drop_notes
           (strip_version (strip_arch (path_stem filename)))))))"
proof -
  have "normalize_tool_name (lit ''DiskGeniusPro_x64_v1.2.3.7z'') = lit ''Diskgeniuspro''"
    by code_simp
  moreover have "path_stem (lit ''DiskGeniusPro_x64_v1.2.3.7z'') = lit ''DiskGeniusPro_x64_v1.2.3''"
    by code_simp
  moreover have "strip_arch (lit ''DiskGeniusPro_x64_v1.2.3'') = lit ''DiskGeniusPro__v1.2.3''"
    by code_simp
  moreover have "strip_version (lit ''DiskGeniusPro__v1.2.3'') = lit ''DiskGeniusPro__''"
    by code_simp
  moreover have "drop_notes (lit ''DiskGeniusPro__'') = lit ''DiskGeniusPro''"
    by code_simp
  moreover have "normalize_separators (lit ''DiskGeniusPro'') = lit ''DiskGeniusPro''"
    by code_simp
  moreover have "str_title (str_strip (lit ''DiskGeniusPro'')) = lit ''Diskgeniuspro''"
    by code_simp
  moreover have "\<forall>filename. normalize_tool_name filename =
         str_title (str_strip (normalize_separators (drop_notes
           (strip_version (strip_arch (path_stem filename))))))"
    by (simp add: normalize_tool_name_def Let_def)
  ultimately show ?thesis
    by blast
qed

subsection \<open>Function resolver\<close>

text \<open>
  C3. The claim: when the first lookup gives no usable extract and the second lookup
  answers with a status other than 200, the result is the fallback string, whatever the
  body of the answer holds. The code does not do this. Only the first lookup tests
  \<^verbatim>\<open>r.status_code == 200\<close>; the second reads \<^verbatim>\<open>AbstractText\<close> from the body of any
  answer. The theorem runs the function where the first lookup times out and the second
  answers with status 500 and an abstract in its body.
\<close>

theorem query_ddg_status_not_checked:
  "query_tool_function
     (scripted (Inl Timeout)
        (Inr \<lparr>status_code = 500,
              json_body = Inr (JObject [(lit ''AbstractText'', JString (lit ''Server error. Retry''))])\<rparr>))
     (lit ''Appone'') \<lparr>world = 0, sent = []\<rparr>
   = (Inr (lit ''Server error''),
      \<lparr>world = 2, sent = [wiki_request (lit ''Appone''), ddg_request (lit ''Appone'')]\<rparr>)"
  by code_simp

text \<open>
  C4. The claim: both GET calls carry the header \<^verbatim>\<open>User-Agent: WinToolsTableGenerator/1.0\<close>
  and a timeout of 5 seconds. The code does not do this. The first call passes
  \<^verbatim>\<open>headers=HEADERS\<close>, the second passes no headers at all; both pass \<^verbatim>\<open>timeout=5\<close>. The
  theorem lists the requests sent for one tool name when the first lookup fails.
\<close>

theorem query_ddg_request_without_headers:
  "sent (snd (query_tool_function (scripted (Inl Timeout) (Inl Timeout)) (lit ''Appone'')
                \<lparr>world = 0, sent = []\<rparr>))
   = [\<lparr>url = lit ''https://en.wikipedia.org/api/rest_v1/page/summary/Appone'', params = [],
       headers = Some [(lit ''User-Agent'', lit ''WinToolsTableGenerator/1.0'')],
       timeout = Some 5\<rparr>,
      \<lparr>url = lit ''https://api.duckduckgo.com/'',
       params = [(lit ''q'', PStr (lit ''Appone'')), (lit ''format'', PStr (lit ''json'')),
                 (lit ''no_redirect'', PInt 1), (lit ''no_html'', PInt 1)],
       headers = None, timeout = Some 5\<rparr>]"
  by code_simp

text \<open>
  C5. For every tool name, when both lookups raise an exception that \<^verbatim>\<open>except Exception\<close>
  catches (a timeout or a connection error of the call, a decode error of \<^verbatim>\<open>r.json()\<close>,
  an error on a body of the wrong shape), \<open>query_tool_function\<close> returns the fallback
  string \<^verbatim>\<open>Windows utility tool\<close> and raises nothing.
\<close>

theorem query_both_lookups_raise:
  assumes "net (world s) (wiki_request tool_name) = (got1, w1)"
    and "net w1 (ddg_request tool_name) = (got2, w2)"
    and "wiki_try got1 = Inl e1" and "is_Exception e1"
    and "ddg_try got2 = Inl e2" and "is_Exception e2"
  shows "query_tool_function net tool_name s =
           (Inr (lit ''Windows utility tool''),
            \<lparr>world = w2, sent = sent s @ [wiki_request tool_name, ddg_request tool_name]\<rparr>)"
  using assms
  by (simp add: query_tool_function_def requests_get_def except_Exception_def fallback_def)

text \<open>The witness: the first call times out, the second answers with a body that is
  not JSON.\<close>

theorem query_both_lookups_raise_witness:
  "wiki_try (Inl Timeout) = Inl Timeout
   \<and> is_Exception Timeout
   \<and> ddg_try (Inr \<lparr>status_code = 200, json_body = Inl JSONDecodeError\<rparr>)
       = Inl JSONDecodeError
   \<and> is_Exception JSONDecodeError
   \<and> query_tool_function
        (scripted (Inl Timeout) (Inr \<lparr>status_code = 200, json_body = Inl JSONDecodeError\<rparr>))
        (lit ''Appone'') \<lparr>world = 0, sent = []\<rparr>
      = (Inr (lit ''Windows utility tool''),
         \<lparr>world = 2, sent = [wiki_request (lit ''Appone''), ddg_request (lit ''Appone'')]\<rparr>)"
  using query_both_lookups_raise
    [where net = "scripted (Inl Timeout)
                    (Inr \<lparr>status_code = 200, json_body = Inl JSONDecodeError\<rparr>)"
       and s = "\<lparr>world = 0, sent = []\<rparr>" and tool_name = "lit ''Appone''"
       and ?got1.0 = "Inl Timeout" and ?w1.0 = "Suc 0"
       and ?got2.0 = "Inr \<lparr>status_code = 200, json_body = Inl JSONDecodeError\<rparr>"
       and ?w2.0 = "Suc (Suc 0)" and ?e1.0 = Timeout and ?e2.0 = JSONDecodeError]
  by (simp add: scripted_def wiki_request_def ddg_request_def wiki_api_def wiki_try_def
                ddg_try_def numeral_2_eq_2)

text \<open>
  C9. For every tool name, when the first lookup answers with status 200 and a body whose
  \<^verbatim>\<open>extract\<close> is a string that is not empty, \<open>query_tool_function\<close> returns the text of
  the extract before its first period, and the second lookup is not made: the only request
  sent is the first one, and the outside world is as that request left it.
\<close>

theorem query_wiki_extract_first:
  assumes "net (world s) (wiki_request tool_name) = (Inr r, w)"
    and "status_code r = 200"
    and "json_body r = Inr (JObject kvs)"
    and "map_of kvs (lit ''extract'') = Some (JString summary)"
    and "summary \<noteq> []"
  shows "query_tool_function net tool_name s =
           (Inr (takeWhile (\<lambda>c. c \<noteq> Latin CHR ''.'') summary),
            \<lparr>world = w, sent = sent s @ [wiki_request tool_name]\<rparr>)"
  using assms
  by (simp add: query_tool_function_def requests_get_def wiki_try_def except_Exception_def
                first_sentence_string del: first_sentence.simps)

text \<open>The witness: the first lookup answers with a summary of two sentences; the second
  source is down.\<close>

theorem query_wiki_extract_first_witness:
  "query_tool_function
     (scripted
        (Inr \<lparr>status_code = 200,
              json_body = Inr (JObject [(lit ''title'', JString (lit ''7-Zip'')),
                (lit ''extract'', JString (lit ''7-Zip is a file archiver. It is free.''))])\<rparr>)
        (Inl ConnectionError))
     (lit ''Zip'') \<lparr>world = 0, sent = []\<rparr>
   = (Inr (lit ''7-Zip is a file archiver''), \<lparr>world = 1, sent = [wiki_request (lit ''Zip'')]\<rparr>)"
  using query_wiki_extract_first
    [where net = "scripted
        (Inr \<lparr>status_code = 200,
              json_body = Inr (JObject [(lit ''title'', JString (lit ''7-Zip'')),
                (lit ''extract'', JString (lit ''7-Zip is a file archiver. It is free.''))])\<rparr>)
        (Inl ConnectionError)"
       and s = "\<lparr>world = 0, sent = []\<rparr>" and tool_name = "lit ''Zip''"
       and r = "\<lparr>status_code = 200,
              json_body = Inr (JObject [(lit ''title'', JString (lit ''7-Zip'')),
                (lit ''extract'', JString (lit ''7-Zip is a file archiver. It is free.''))])\<rparr>"
       and w = "Suc 0"
       and kvs = "[(lit ''title'', JString (lit ''7-Zip'')),
                (lit ''extract'', JString (lit ''7-Zip is a file archiver. It is free.''))]"
       and summary = "lit ''7-Zip is a file archiver. It is free.''"]
  by (simp add: scripted_def wiki_request_def wiki_api_def)

subsection \<open>Driver\<close>

text \<open>
  C2, as amended. When the tool files of the source directory are \<^verbatim>\<open>AppOne_x64.exe\<close> and
  \<^verbatim>\<open>appzero.zip\<close>, in either order, and both lookups fail for every name (\<open>wiki_fails\<close>,
  \<open>ddg_fails\<close>: a caught exception of the call or of the decoding, for the first lookup a
  status other than 200, or a body without a string that is not empty under the key
  read), the run hands the updater a table of two rows in ascending order of the
  lowercased names, the row \<^verbatim>\<open>Appone\<close> (from \<^verbatim>\<open>AppOne_x64.exe\<close>) before the row
  \<^verbatim>\<open>Appzero\<close>, each with the fallback description.
\<close>

theorem main_two_files_sorted:
  assumes "\<forall>w name. wiki_fails (fst (net w (wiki_request name)))
                     \<and> ddg_fails (fst (net w (ddg_request name)))"
    and "a = \<lparr>entry_name = lit ''AppOne_x64.exe'', is_file = True\<rparr>"
    and "b = \<lparr>entry_name = lit ''appzero.zip'', is_file = True\<rparr>"
    and "filter is_tool_file listing = [a, b] \<or> filter is_tool_file listing = [b, a]"
  shows "fst (main net listing md s) =
           update_markdown_file md
             (build_markdown_table [(lit ''Appone'', lit ''Windows utility tool''),
                                    (lit ''Appzero'', lit ''Windows utility tool'')])
         \<and> map code_point (str_lower (lit ''Appone''))
             < map code_point (str_lower (lit ''Appzero''))"
proof -
  have a: "is_tool_file a" "normalize_tool_name (entry_name a) = lit ''Appone''"
    unfolding assms(2) by code_simp+
  have b: "is_tool_file b" "normalize_tool_name (entry_name b) = lit ''Appzero''"
    unfolding assms(3) by code_simp+
  have sorted1:
    "sort_key (\<lambda>x. map code_point (str_lower (fst x)))
       [(lit ''Appone'', fallback), (lit ''Appzero'', fallback)]
       = [(lit ''Appone'', fallback), (lit ''Appzero'', fallback)]"
    by code_simp
  have sorted2:
    "sort_key (\<lambda>x. map code_point (str_lower (fst x)))
       [(lit ''Appzero'', fallback), (lit ''Appone'', fallback)]
       = [(lit ''Appone'', fallback), (lit ''Appzero'', fallback)]"
    by code_simp
  have less: "map code_point (str_lower (lit ''Appone''))
               < map code_point (str_lower (lit ''Appzero''))"
    by code_simp
  from assms(4) have "fst (main net listing md s) =
           update_markdown_file md
             (build_markdown_table [(lit ''Appone'', lit ''Windows utility tool''),
                                    (lit ''Appzero'', lit ''Windows utility tool'')])"
  proof
    assume l: "filter is_tool_file listing = [a, b]"
    from collect_two_tools [OF assms(1) a(1) b(1)] obtain s' where
      "collect_tools net [a, b] [] s
         = (Inr [(lit ''Appone'', fallback), (lit ''Appzero'', fallback)], s')"
      by (auto simp: a b)
    with l sorted1 show ?thesis
      by (simp add: main_def fallback_def collect_tools_filter [of net listing])
  next
    assume l: "filter is_tool_file listing = [b, a]"
    from collect_two_tools [OF assms(1) b(1) a(1)] obtain s' where
      "collect_tools net [b, a] [] s
         = (Inr [(lit ''Appzero'', fallback), (lit ''Appone'', fallback)], s')"
      by (auto simp: a b)
    with l sorted2 show ?thesis
      by (simp add: main_def fallback_def collect_tools_filter [of net listing])
  qed
  with less show ?thesis
    by blast
qed

text \<open>
  The witness: the directory lists \<^verbatim>\<open>appzero.zip\<close> first, then the script itself, then
  \<^verbatim>\<open>AppOne_x64.exe\<close>; the first lookup answers with status 404 and the second with an
  empty abstract; the target file does not exist.
\<close>

theorem main_two_files_sorted_witness:
  "filter is_tool_file
     [\<lparr>entry_name = lit ''appzero.zip'', is_file = True\<rparr>,
      \<lparr>entry_name = lit ''PyUpdateTrackTools.py'', is_file = True\<rparr>,
      \<lparr>entry_name = lit ''AppOne_x64.exe'', is_file = True\<rparr>]
     = [\<lparr>entry_name = lit ''appzero.zip'', is_file = True\<rparr>,
        \<lparr>entry_name = lit ''AppOne_x64.exe'', is_file = True\<rparr>]
   \<and> fst (main (scripted
                   (Inr \<lparr>status_code = 404, json_body = Inr (JObject [])\<rparr>)
                   (Inr \<lparr>status_code = 200,
                         json_body = Inr (JObject [(lit ''AbstractText'', JString [])])\<rparr>))
            [\<lparr>entry_name = lit ''appzero.zip'', is_file = True\<rparr>,
             \<lparr>entry_name = lit ''PyUpdateTrackTools.py'', is_file = True\<rparr>,
             \<lparr>entry_name = lit ''AppOne_x64.exe'', is_file = True\<rparr>]
            None \<lparr>world = 0, sent = []\<rparr>)
       = Inr (lit ''| Name | Function |'' @ [Latin (CHR 0x0A)] @ lit ''| ---- | -------- |'' @ [Latin (CHR 0x0A)]
              @ lit ''| Appone | Windows utility tool |'' @ [Latin (CHR 0x0A)]
              @ lit ''| Appzero | Windows utility tool |'')"
proof -
  let ?listing = "[\<lparr>entry_name = lit ''appzero.zip'', is_file = True\<rparr>,
      \<lparr>entry_name = lit ''PyUpdateTrackTools.py'', is_file = True\<rparr>,
      \<lparr>entry_name = lit ''AppOne_x64.exe'', is_file = True\<rparr>]"
  have f: "filter is_tool_file ?listing
     = [\<lparr>entry_name = lit ''appzero.zip'', is_file = True\<rparr>,
        \<lparr>entry_name = lit ''AppOne_x64.exe'', is_file = True\<rparr>]"
    by code_simp
  let ?net = "scripted
                   (Inr \<lparr>status_code = 404, json_body = Inr (JObject [])\<rparr>)
                   (Inr \<lparr>status_code = 200,
                         json_body = Inr (JObject [(lit ''AbstractText'', JString [])])\<rparr>)"
  have n: "\<forall>w name. wiki_fails (fst (?net w (wiki_request name)))
                      \<and> ddg_fails (fst (?net w (ddg_request name)))"
    by (simp add: scripted_def wiki_request_def wiki_api_def ddg_request_def
                  wiki_fails_def ddg_fails_def has_text_def)
  have t: "update_markdown_file None
             (build_markdown_table [(lit ''Appone'', lit ''Windows utility tool''),
                                    (lit ''Appzero'', lit ''Windows utility tool'')])
       = Inr (lit ''| Name | Function |'' @ [Latin (CHR 0x0A)] @ lit ''| ---- | -------- |'' @ [Latin (CHR 0x0A)]
              @ lit ''| Appone | Windows utility tool |'' @ [Latin (CHR 0x0A)]
              @ lit ''| Appzero | Windows utility tool |'')"
    by code_simp
  from main_two_files_sorted [OF n refl refl disjI2, OF f, of None "\<lparr>world = 0, sent = []\<rparr>"] f t
  show ?thesis
    by simp
qed

text \<open>
  The claim as it stands puts the row \<^verbatim>\<open>Appzero\<close> first. The run, with both lookups
  failing and no target file, writes the row \<^verbatim>\<open>Appone\<close> first, since
  \<^verbatim>\<open>appone\<close> is less than \<^verbatim>\<open>appzero\<close>.
\<close>

theorem main_two_files_order_counterexample:
  "fst (main (scripted (Inl ConnectionError) (Inl ConnectionError))
          [\<lparr>entry_name = lit ''AppOne_x64.exe'', is_file = True\<rparr>,
           \<lparr>entry_name = lit ''appzero.zip'', is_file = True\<rparr>]
          None \<lparr>world = 0, sent = []\<rparr>)
     = Inr (lit ''| Name | Function |'' @ [Latin (CHR 0x0A)] @ lit ''| ---- | -------- |'' @ [Latin (CHR 0x0A)]
            @ lit ''| Appone | Windows utility tool |'' @ [Latin (CHR 0x0A)]
            @ lit ''| Appzero | Windows utility tool |'')
   \<and> fst (main (scripted (Inl ConnectionError) (Inl ConnectionError))
          [\<lparr>entry_name = lit ''AppOne_x64.exe'', is_file = True\<rparr>,
           \<lparr>entry_name = lit ''appzero.zip'', is_file = True\<rparr>]
          None \<lparr>world = 0, sent = []\<rparr>)
     \<noteq> Inr (lit ''| Name | Function |'' @ [Latin (CHR 0x0A)] @ lit ''| ---- | -------- |'' @ [Latin (CHR 0x0A)]
            @ lit ''| Appzero | Windows utility tool |'' @ [Latin (CHR 0x0A)]
            @ lit ''| Appone | Windows utility tool |'')"
  by code_simp

text \<open>
  C10. \<open>build_markdown_table\<close> of no entries is the header line and the separator line
  joined by a line feed. When the source directory holds no file with a supported
  extension, the run makes no request and still updates the target file with this table:
  a file that did not exist becomes the table, and in every case the text written holds
  the table.
\<close>

theorem empty_listing_writes_header_table:
  assumes "\<forall>item \<in> set listing. \<not> is_tool_file item"
  shows "build_markdown_table []
           = lit ''| Name | Function |'' @ [Latin (CHR 0x0A)] @ lit ''| ---- | -------- |''
    \<and> main net listing md s = (update_markdown_file md (build_markdown_table []), s)
    \<and> update_markdown_file None (build_markdown_table []) = Inr (build_markdown_table [])
    \<and> (\<exists>content. update_markdown_file md (build_markdown_table []) = Inr content
           \<and> str_contains (build_markdown_table []) content)"
proof -
  have t: "build_markdown_table []
             = lit ''| Name | Function |'' @ [Latin (CHR 0x0A)] @ lit ''| ---- | -------- |''"
    by (simp add: build_markdown_table_def header_line_def separator_line_def)
  have c: "collect_tools net listing acc s = (Inr acc, s)" for acc
    using assms by (induction listing arbitrary: acc) auto
  have m: "main net listing md s = (update_markdown_file md (build_markdown_table []), s)"
    by (simp add: main_def c)
  have n: "update_markdown_file None (build_markdown_table []) = Inr (build_markdown_table [])"
    by (simp add: update_markdown_file_def)
  have b: "backslash \<notin> set (build_markdown_table [])"
    unfolding t by (simp add: backslash_def)
  have e: "\<exists>content. update_markdown_file md (build_markdown_table []) = Inr content
           \<and> str_contains (build_markdown_table []) content"
  proof (cases md)
    case None
    then show ?thesis by (simp add: n str_contains_sublist)
  next
    case (Some original)
    show ?thesis
    proof (cases "str_contains header_line original")
      case True
      then have "sublist (build_markdown_table [])
                   (sub_table (map (\<lambda>c. Lit [c]) (build_markdown_table [])) original)"
        by (intro sub_table_contains) (simp_all add: expand_template_plain str_contains_sublist)
      with True Some b show ?thesis
        by (simp add: update_markdown_file_def parse_template_plain str_contains_sublist)
    next
      case False
      have "sublist (build_markdown_table [])
              ((original @ [Latin (CHR 0x0A), Latin (CHR 0x0A)]) @ build_markdown_table [] @ [])"
        by (rule sublist_appendI)
      with False Some show ?thesis
        by (simp add: update_markdown_file_def str_contains_sublist)
    qed
  qed
  from t m n e show ?thesis by blast
qed

text \<open>The witness: the directory holds the script and a folder; the target file holds a
  title.\<close>

theorem empty_listing_writes_header_table_witness:
  "\<not> is_tool_file \<lparr>entry_name = lit ''PyUpdateTrackTools.py'', is_file = True\<rparr>
   \<and> \<not> is_tool_file \<lparr>entry_name = lit ''old.zip'', is_file = False\<rparr>
   \<and> main (scripted (Inl Timeout) (Inl Timeout))
        [\<lparr>entry_name = lit ''PyUpdateTrackTools.py'', is_file = True\<rparr>,
         \<lparr>entry_name = lit ''old.zip'', is_file = False\<rparr>]
        (Some (lit ''# Tools'')) \<lparr>world = 0, sent = []\<rparr>
      = (Inr (lit ''# Tools'' @ [Latin (CHR 0x0A), Latin (CHR 0x0A)] @ lit ''| Name | Function |'' @ [Latin (CHR 0x0A)]
              @ lit ''| ---- | -------- |''),
         \<lparr>world = 0, sent = []\<rparr>)"
proof -
  have f: "\<not> is_tool_file \<lparr>entry_name = lit ''PyUpdateTrackTools.py'', is_file = True\<rparr>"
    "\<not> is_tool_file \<lparr>entry_name = lit ''old.zip'', is_file = False\<rparr>"
    by code_simp+
  then have a: "\<forall>item \<in> set [\<lparr>entry_name = lit ''PyUpdateTrackTools.py'', is_file = True\<rparr>,
         \<lparr>entry_name = lit ''old.zip'', is_file = False\<rparr>]. \<not> is_tool_file item"
    by simp
  have u: "update_markdown_file (Some (lit ''# Tools'')) (build_markdown_table [])
      = Inr (lit ''# Tools'' @ [Latin (CHR 0x0A), Latin (CHR 0x0A)] @ lit ''| Name | Function |'' @ [Latin (CHR 0x0A)]
              @ lit ''| ---- | -------- |'')"
    by code_simp
  from empty_listing_writes_header_table [OF a, of "scripted (Inl Timeout) (Inl Timeout)"
      "Some (lit ''# Tools'')" "\<lparr>world = 0, sent = []\<rparr>"] f u
  show ?thesis
    by simp
qed

end
